theory Spec2Isabelle
  imports Main "HOL-Library.Word"
begin

section \<open>JavaScript strings and the two built-ins the row uses\<close>

text \<open>
  A JavaScript string is a sequence of UTF-16 code units, so the text of the field is a
  list of 16-bit words. String literals of the source are ASCII; \<open>js\<close> turns an
  Isabelle literal into the code units of the same JavaScript literal.
\<close>

type_synonym code_unit = "16 word"
type_synonym jsstring = "code_unit list"

definition js :: "string \<Rightarrow> jsstring" where
  "js cs = map (\<lambda>c. of_nat (of_char c)) cs"

text \<open>
  \<open>StrWhiteSpaceChar\<close> of ECMAScript (WhiteSpace and LineTerminator): TAB, LF, VT, FF,
  CR, SP, NBSP, U+1680, U+2000 to U+200A, LS, PS, U+202F, U+205F, U+3000 and the BOM.
  All of them are single code units.
\<close>

definition isWhiteSpace :: "code_unit \<Rightarrow> bool" where
  "isWhiteSpace c =
     (c = 0x0009 \<or> c = 0x000A \<or> c = 0x000B \<or> c = 0x000C \<or> c = 0x000D \<or>
      c = 0x0020 \<or> c = 0x00A0 \<or> c = 0x1680 \<or> (0x2000 \<le> c \<and> c \<le> 0x200A) \<or>
      c = 0x2028 \<or> c = 0x2029 \<or> c = 0x202F \<or> c = 0x205F \<or> c = 0x3000 \<or>
      c = 0xFEFF)"

definition isDigit :: "code_unit \<Rightarrow> bool" where
  "isDigit c = (0x30 \<le> c \<and> c \<le> 0x39)"

definition digitValue :: "code_unit \<Rightarrow> int" where
  "digitValue c = uint c - 48"

text \<open>The mathematical integer that a run of decimal digits represents.\<close>

definition mathInt :: "jsstring \<Rightarrow> int" where
  "mathInt Z = foldl (\<lambda>a c. 10 * a + digitValue c) 0 Z"

text \<open>
  \<open>parseInt(value, 10)\<close>, step by step as ECMAScript defines it: trim leading white
  space, read one optional sign, take the longest prefix of decimal digits, and return
  NaN when that prefix is empty. The result \<open>None\<close> is NaN. The result \<open>Some i\<close>
  stands for the Number nearest to the integer \<open>i\<close>; rounding to a Number is monotone
  and leaves every integer of magnitude up to \<open>2 ^ 53\<close> as it is, so the comparisons
  with 128 and 128000 that the handler makes, and every value it passes on, are the same
  on \<open>i\<close>. (Negative zero is \<open>Some 0\<close>: it compares like zero.)
\<close>

definition parseInt10 :: "jsstring \<Rightarrow> int option" where
  "parseInt10 inputString =
     (let S = dropWhile isWhiteSpace inputString;
          sign = (if S \<noteq> [] \<and> hd S = 0x2D then - 1 else 1);
          S' = (if S \<noteq> [] \<and> (hd S = 0x2B \<or> hd S = 0x2D) then tl S else S);
          Z = takeWhile isDigit S'
      in if Z = [] then None else Some (sign * mathInt Z))"

text \<open>
  \<open>Number.prototype.toString\<close> on an integer-valued Number of magnitude below
  \<open>2 ^ 53\<close>: the decimal digits, most significant first, after a minus sign when the
  number is negative. Above that magnitude JavaScript prints the shortest digits that
  read back as the same Number, padded with zeros, and from \<open>10 ^ 21\<close> on the
  exponent form (\<open>1e+21\<close>); \<open>Number_toString\<close> is not the built-in there, and every
  statement that names the text of a prop is made for a prop that \<open>isSafeInteger\<close>
  admits.
\<close>

definition isSafeInteger :: "int \<Rightarrow> bool" where
  "isSafeInteger n = (- (2 ^ 53) < n \<and> n < 2 ^ 53)"

definition digitUnit :: "nat \<Rightarrow> code_unit" where
  "digitUnit d = of_nat (48 + d)"

fun digits :: "nat \<Rightarrow> jsstring" where
  "digits n = (if n < 10 then [digitUnit n] else digits (n div 10) @ [digitUnit (n mod 10)])"

declare digits.simps [simp del]

definition Number_toString :: "int \<Rightarrow> jsstring" where
  "Number_toString n = (if n < 0 then 0x2D # digits (nat (- n)) else digits (nat n))"

section \<open>The max-tokens field of ChatbotConfigurationTableRow\<close>

text \<open>The \<open>validated\<close> variants of the form group: 'default', 'success', 'warning', 'error'.\<close>

datatype validated = Default | Success | Warning | Error

text \<open>The three \<open>useState\<close> cells of the component.\<close>

record row_state =
  maxTokensValue :: jsstring
  maxTokensValidated :: validated
  maxTokensHelperText :: jsstring

text \<open>
  \<open>maxTokens?.toString() || ''\<close>: the prop is a Number or undefined (\<open>None\<close>);
  \<open>||\<close> replaces undefined and the empty string by \<open>''\<close>.
\<close>

definition maxTokensText :: "int option \<Rightarrow> jsstring" where
  "maxTokensText maxTokens =
     (case map_option Number_toString maxTokens of
        None \<Rightarrow> []
      | Some s \<Rightarrow> if s = [] then [] else s)"

text \<open>
  Every operation returns the new state together with the calls of the prop
  \<open>onMaxTokensChange\<close> it made, in order; the argument of a call is a Number or
  undefined (\<open>None\<close>).
\<close>

type_synonym notifications = "int option list"

text \<open>The state of the first render: the initial values given to \<open>useState\<close>.\<close>

definition initialState :: "int option \<Rightarrow> row_state" where
  "initialState maxTokens =
     \<lparr>maxTokensValue = maxTokensText maxTokens,
      maxTokensValidated = Default,
      maxTokensHelperText = []\<rparr>"

text \<open>The effect that runs after the first render and whenever the prop \<open>maxTokens\<close> changes.\<close>

definition syncMaxTokens :: "int option \<Rightarrow> row_state \<Rightarrow> row_state \<times> notifications" where
  "syncMaxTokens maxTokens s = (s\<lparr>maxTokensValue := maxTokensText maxTokens\<rparr>, [])"

text \<open>The change handler of the text input.\<close>

definition handleMaxTokensChange :: "jsstring \<Rightarrow> row_state \<Rightarrow> row_state \<times> notifications" where
  "handleMaxTokensChange v s =
     (let s1 = s\<lparr>maxTokensValue := v\<rparr> in
      if v = [] then
        (s1\<lparr>maxTokensValidated := Default, maxTokensHelperText := []\<rparr>, [None])
      else
        (case parseInt10 v of
           None \<Rightarrow>
             (s1\<lparr>maxTokensValidated := Error,
                 maxTokensHelperText := js ''Must be a valid number''\<rparr>, [])
         | Some numValue \<Rightarrow>
             if numValue < 128 then
               (s1\<lparr>maxTokensValidated := Error, maxTokensHelperText := js ''Minimum: 128''\<rparr>, [])
             else if numValue > 128000 then
               (s1\<lparr>maxTokensValidated := Error,
                   maxTokensHelperText := js ''Maximum: 128,000''\<rparr>, [])
             else
               (s1\<lparr>maxTokensValidated := Success, maxTokensHelperText := []\<rparr>,
                [Some numValue])))"

text \<open>
  The component as mounted: the first render followed by the effect, which runs once
  after it.
\<close>

definition mount :: "int option \<Rightarrow> row_state \<times> notifications" where
  "mount maxTokens = syncMaxTokens maxTokens (initialState maxTokens)"

text \<open>
  Modelled from the spec: the collaborator that owns \<open>committedValue\<close> (the parent
  that passes the props \<open>maxTokens\<close> and \<open>onMaxTokensChange\<close>) is not in the source
  file. The spec's data model makes the committed value the last value reported upward,
  so the collaborator keeps the argument of each call it receives.
\<close>

definition committedAfter :: "notifications \<Rightarrow> int option \<Rightarrow> int option" where
  "committedAfter calls committedValue = foldl (\<lambda>committed reported. reported) committedValue calls"

section \<open>Decimal digits and the leading-integer parse\<close>

lemma digit_below_ten:
  assumes "d < (10::nat)"
  shows "d = 0 \<or> d = 1 \<or> d = 2 \<or> d = 3 \<or> d = 4 \<or> d = 5 \<or> d = 6 \<or> d = 7 \<or> d = 8 \<or> d = 9"
  using assms by arith

lemma isDigit_digitUnit: "d < 10 \<Longrightarrow> isDigit (digitUnit d)"
  using digit_below_ten [of d] by (auto simp add: isDigit_def digitUnit_def)

lemma digitValue_digitUnit: "d < 10 \<Longrightarrow> digitValue (digitUnit d) = int d"
  using digit_below_ten [of d] by (auto simp add: digitValue_def digitUnit_def)

lemma isDigit_not_space: "isDigit c \<Longrightarrow> \<not> isWhiteSpace c"
  by (auto simp add: isDigit_def isWhiteSpace_def word_le_nat_alt)

lemma isDigit_not_sign: "isDigit c \<Longrightarrow> c \<noteq> 0x2B \<and> c \<noteq> 0x2D"
  by (auto simp add: isDigit_def)

lemma minus_not_space: "\<not> isWhiteSpace 0x2D"
  by (simp add: isWhiteSpace_def)

lemma mathInt_snoc: "mathInt (Z @ [c]) = 10 * mathInt Z + digitValue c"
  by (simp add: mathInt_def)

lemma digits_not_Nil: "digits n \<noteq> []"
  by (subst digits.simps) simp

lemma digits_all_digits: "list_all isDigit (digits n)"
proof (induction n rule: digits.induct)
  case (1 n)
  show ?case
  proof (cases "n < 10")
    case True
    then show ?thesis by (subst digits.simps) (simp add: isDigit_digitUnit)
  next
    case False
    then have "list_all isDigit (digits (n div 10))" using 1 by simp
    moreover have "isDigit (digitUnit (n mod 10))" by (rule isDigit_digitUnit) simp
    ultimately show ?thesis using False by (subst digits.simps) simp
  qed
qed

lemma mathInt_digits: "mathInt (digits n) = int n"
proof (induction n rule: digits.induct)
  case (1 n)
  show ?case
  proof (cases "n < 10")
    case True
    then show ?thesis by (subst digits.simps) (simp add: mathInt_def digitValue_digitUnit)
  next
    case False
    then have ih: "mathInt (digits (n div 10)) = int (n div 10)" using 1 by simp
    have "digitValue (digitUnit (n mod 10)) = int (n mod 10)"
      by (rule digitValue_digitUnit) simp
    then have "mathInt (digits n) = 10 * int (n div 10) + int (n mod 10)"
      using False ih by (subst digits.simps) (simp add: mathInt_snoc)
    then show ?thesis by presburger
  qed
qed

text \<open>A non-empty run of digits parses to its value; after a minus sign, to the negated value.\<close>

lemma parseInt10_digit_run:
  assumes "Z \<noteq> []" and "list_all isDigit Z"
  shows "parseInt10 Z = Some (mathInt Z)"
proof -
  obtain c cs where Z: "Z = c # cs" using assms(1) by (cases Z) auto
  then have c: "isDigit c" using assms(2) by simp
  have dw: "dropWhile isWhiteSpace Z = Z" using Z c isDigit_not_space by simp
  have sg: "hd Z \<noteq> 0x2B" "hd Z \<noteq> 0x2D" using Z c isDigit_not_sign by simp_all
  have tw: "takeWhile isDigit Z = Z" using assms(2) by (simp add: list_all_iff)
  show ?thesis using assms(1) by (simp add: parseInt10_def Let_def dw sg tw)
qed

lemma parseInt10_minus_digit_run:
  assumes "Z \<noteq> []" and "list_all isDigit Z"
  shows "parseInt10 (0x2D # Z) = Some (- mathInt Z)"
proof -
  have tw: "takeWhile isDigit Z = Z" using assms(2) by (simp add: list_all_iff)
  show ?thesis using assms(1) by (simp add: parseInt10_def Let_def minus_not_space tw)
qed

text \<open>Parsing the decimal string of an integer gives the integer back.\<close>

lemma parseInt10_Number_toString: "parseInt10 (Number_toString n) = Some n"
proof (cases "n < 0")
  case True
  then show ?thesis
    by (simp add: Number_toString_def parseInt10_minus_digit_run digits_not_Nil
        digits_all_digits mathInt_digits)
next
  case False
  then show ?thesis
    by (simp add: Number_toString_def parseInt10_digit_run digits_not_Nil
        digits_all_digits mathInt_digits)
qed

lemma Number_toString_not_Nil: "Number_toString n \<noteq> []"
  by (simp add: Number_toString_def digits_not_Nil)

text \<open>
  The decimal string of a negative integer is a minus sign followed by a non-empty run of
  digits of positive value.
\<close>

lemma Number_toString_negative:
  assumes "n < 0"
  shows "Number_toString n = 0x2D # digits (nat (- n)) \<and> digits (nat (- n)) \<noteq> [] \<and>
         list_all isDigit (digits (nat (- n))) \<and> 0 < mathInt (digits (nat (- n)))"
  using assms by (simp add: Number_toString_def digits_not_Nil digits_all_digits mathInt_digits)

text \<open>Unfolding everything: how a concrete input is evaluated.\<close>

lemmas parse_eval = parseInt10_def Let_def js_def isWhiteSpace_def isDigit_def mathInt_def
  digitValue_def

lemmas print_eval = Number_toString_def digits.simps digitUnit_def js_def maxTokensText_def

section \<open>The claims about the change handler\<close>

text \<open>
  Claim C1. For every integer \<open>n\<close> from 128 to 128000, the handler called with the
  decimal string of \<open>n\<close> echoes that string, sets the status to success and the
  helper text to the empty string, and calls \<open>onMaxTokensChange\<close> exactly once, with
  \<open>n\<close>.
\<close>

theorem handleMaxTokensChange_in_range:
  assumes "128 \<le> n" and "n \<le> 128000"
  shows "handleMaxTokensChange (Number_toString n) s =
           (s\<lparr>maxTokensValue := Number_toString n, maxTokensValidated := Success,
              maxTokensHelperText := []\<rparr>,
            [Some n])"
  using assms
  by (simp add: handleMaxTokensChange_def Let_def parseInt10_Number_toString
      Number_toString_not_Nil)

theorem handleMaxTokensChange_in_range_witness:
  "(128::int) \<le> 4096 \<and> (4096::int) \<le> 128000 \<and>
   handleMaxTokensChange (js ''4096'') (initialState None) =
     (\<lparr>maxTokensValue = js ''4096'', maxTokensValidated = Success, maxTokensHelperText = []\<rparr>,
      [Some 4096])"
  using handleMaxTokensChange_in_range [of 4096 "initialState None"]
  by (simp add: print_eval initialState_def)

text \<open>
  Claim C2. The handler called with the empty string sets the status to default and the
  helper text to the empty string and calls \<open>onMaxTokensChange\<close> once with undefined,
  which the collaborator then holds as the committed value; no other input makes the
  handler report undefined.
\<close>

theorem handleMaxTokensChange_empty:
  "handleMaxTokensChange [] s =
     (s\<lparr>maxTokensValue := [], maxTokensValidated := Default, maxTokensHelperText := []\<rparr>, [None])
   \<and> (\<forall>v s'. (None \<in> set (snd (handleMaxTokensChange v s'))) = (v = []))
   \<and> committedAfter (snd (handleMaxTokensChange [] s)) committedValue = None"
  by (simp add: handleMaxTokensChange_def Let_def committedAfter_def split: option.split)

text \<open>
  Claim C3. For every non-empty input on which the parse gives NaN, the handler sets the
  status to error with the helper text "Must be a valid number" and makes no call, so the
  committed value stays what it was. The handler has no failing branch: none of its
  operations (string comparison, \<open>parseInt\<close> on a string, \<open>Number.isNaN\<close>, the two
  comparisons, the state setters) can throw, and on every input it ends in one of the
  states default, success and error, an input that is neither empty nor accepted in
  error.
\<close>

theorem handleMaxTokensChange_not_a_number:
  assumes "v \<noteq> []" and "parseInt10 v = None"
  shows "handleMaxTokensChange v s =
           (s\<lparr>maxTokensValue := v, maxTokensValidated := Error,
              maxTokensHelperText := js ''Must be a valid number''\<rparr>, [])
         \<and> committedAfter (snd (handleMaxTokensChange v s)) committedValue = committedValue
         \<and> (\<forall>v' s'. maxTokensValidated (fst (handleMaxTokensChange v' s')) =
               (if v' = [] then Default
                else case parseInt10 v' of
                       None \<Rightarrow> Error
                     | Some i \<Rightarrow> if 128 \<le> i \<and> i \<le> 128000 then Success else Error))"
  using assms
  by (auto simp add: handleMaxTokensChange_def Let_def committedAfter_def split: option.split)

theorem handleMaxTokensChange_not_a_number_witness:
  "js ''abc'' \<noteq> [] \<and> parseInt10 (js ''abc'') = None \<and>
   handleMaxTokensChange (js ''abc'') (initialState (Some 4096)) =
     (\<lparr>maxTokensValue = js ''abc'', maxTokensValidated = Error,
       maxTokensHelperText = js ''Must be a valid number''\<rparr>, [])
   \<and> committedAfter (snd (handleMaxTokensChange (js ''abc'') (initialState (Some 4096)))) (Some 4096)
       = Some 4096"
proof -
  have ne: "js ''abc'' \<noteq> []" by (simp add: js_def)
  have nan: "parseInt10 (js ''abc'') = None" by (simp add: parse_eval)
  show ?thesis
    using ne nan
      handleMaxTokensChange_not_a_number [OF ne nan, of "initialState (Some 4096)" "Some 4096"]
    by (simp add: initialState_def committedAfter_def)
qed

text \<open>
  Claim C4. For every non-empty input that parses to an integer \<open>n\<close>: when \<open>n < 128\<close>
  the handler sets the status to error with the helper text "Minimum: 128" and makes no
  call; when \<open>n > 128000\<close> it sets the status to error with the helper text
  "Maximum: 128,000" and makes no call. The handler tests the minimum first; the two
  tests exclude each other, so each input meets at most one of them.
\<close>

theorem handleMaxTokensChange_out_of_range:
  assumes "v \<noteq> []" and "parseInt10 v = Some n"
  shows "(n < 128 \<longrightarrow>
            handleMaxTokensChange v s =
              (s\<lparr>maxTokensValue := v, maxTokensValidated := Error,
                 maxTokensHelperText := js ''Minimum: 128''\<rparr>, []))
         \<and> (128000 < n \<longrightarrow>
            handleMaxTokensChange v s =
              (s\<lparr>maxTokensValue := v, maxTokensValidated := Error,
                 maxTokensHelperText := js ''Maximum: 128,000''\<rparr>, []))"
  using assms by (simp add: handleMaxTokensChange_def Let_def)

theorem handleMaxTokensChange_out_of_range_witness:
  "handleMaxTokensChange (js ''64'') (initialState (Some 4096)) =
     (\<lparr>maxTokensValue = js ''64'', maxTokensValidated = Error,
       maxTokensHelperText = js ''Minimum: 128''\<rparr>, [])
   \<and> handleMaxTokensChange (js ''200000'') (initialState (Some 4096)) =
     (\<lparr>maxTokensValue = js ''200000'', maxTokensValidated = Error,
       maxTokensHelperText = js ''Maximum: 128,000''\<rparr>, [])"
proof -
  have lo: "js ''64'' \<noteq> []" "parseInt10 (js ''64'') = Some 64"
    by (simp_all add: parse_eval)
  have hi: "js ''200000'' \<noteq> []" "parseInt10 (js ''200000'') = Some 200000"
    by (simp_all add: parse_eval)
  show ?thesis
    using handleMaxTokensChange_out_of_range [OF lo, of "initialState (Some 4096)"]
      handleMaxTokensChange_out_of_range [OF hi, of "initialState (Some 4096)"]
    by (simp add: initialState_def)
qed

text \<open>
  Claim C5. Whatever the input, the handler stores it as the text of the field; it calls
  \<open>onMaxTokensChange\<close> at most once: with undefined on the empty input, with the parsed
  value on an input that parses into the range, and not at all otherwise. The effect that
  follows the prop makes no call.
\<close>

theorem handleMaxTokensChange_echo_and_gate:
  "maxTokensValue (fst (handleMaxTokensChange newText s)) = newText
   \<and> length (snd (handleMaxTokensChange newText s)) \<le> 1
   \<and> snd (handleMaxTokensChange newText s) =
       (if newText = [] then [None]
        else case parseInt10 newText of
               None \<Rightarrow> []
             | Some i \<Rightarrow> if 128 \<le> i \<and> i \<le> 128000 then [Some i] else [])
   \<and> snd (syncMaxTokens maxTokens s) = []"
  by (auto simp add: handleMaxTokensChange_def Let_def syncMaxTokens_def split: option.split)

text \<open>
  Claim C9. Calling the handler twice in a row with the same text gives, after the second
  call, the state of the first. Each of the two calls makes its own call of
  \<open>onMaxTokensChange\<close>: with undefined on the empty text, with the parsed value on a
  text that parses into the range (the same value both times, nothing is deduplicated),
  and none on a rejected text.
\<close>

theorem handleMaxTokensChange_twice:
  "fst (handleMaxTokensChange t (fst (handleMaxTokensChange t s))) = fst (handleMaxTokensChange t s)
   \<and> snd (handleMaxTokensChange t (fst (handleMaxTokensChange t s))) = snd (handleMaxTokensChange t s)
   \<and> snd (handleMaxTokensChange [] s) = [None]
   \<and> snd (handleMaxTokensChange [] (fst (handleMaxTokensChange [] s))) = [None]
   \<and> (t \<noteq> [] \<and> parseInt10 t = Some n \<and> 128 \<le> n \<and> n \<le> 128000 \<longrightarrow>
         snd (handleMaxTokensChange t s) = [Some n]
         \<and> snd (handleMaxTokensChange t (fst (handleMaxTokensChange t s))) = [Some n]
         \<and> snd (handleMaxTokensChange t s) @ snd (handleMaxTokensChange t (fst (handleMaxTokensChange t s)))
             = [Some n, Some n])
   \<and> snd (handleMaxTokensChange t (fst (handleMaxTokensChange t s))) =
       (if t = [] then [None]
        else case parseInt10 t of
               None \<Rightarrow> []
             | Some i \<Rightarrow> if 128 \<le> i \<and> i \<le> 128000 then [Some i] else [])"
  by (auto simp add: handleMaxTokensChange_def Let_def split: option.split)

theorem handleMaxTokensChange_twice_witness:
  "js ''4096'' \<noteq> [] \<and> parseInt10 (js ''4096'') = Some 4096
   \<and> snd (handleMaxTokensChange (js ''4096'') (initialState None)) = [Some 4096]
   \<and> snd (handleMaxTokensChange (js ''4096'')
            (fst (handleMaxTokensChange (js ''4096'') (initialState None)))) = [Some 4096]
   \<and> fst (handleMaxTokensChange (js ''4096'')
            (fst (handleMaxTokensChange (js ''4096'') (initialState None))))
       = fst (handleMaxTokensChange (js ''4096'') (initialState None))
   \<and> snd (handleMaxTokensChange [] (fst (handleMaxTokensChange [] (initialState (Some 4096)))))
       = [None]"
proof -
  have ne: "js ''4096'' \<noteq> []" by (simp add: js_def)
  have ok: "parseInt10 (js ''4096'') = Some 4096" by (simp add: parse_eval)
  show ?thesis
    using ne ok
      handleMaxTokensChange_twice [of "js ''4096''" "initialState None" 4096]
      handleMaxTokensChange_twice [of "[]" "initialState (Some 4096)" 0]
    by simp
qed

text \<open>
  Claim C10. A minus sign followed by a non-empty run of digits of positive value (the
  decimal string of a negative integer is one, by \<open>Number_toString_negative\<close>) parses to
  the negated value, not to NaN, so the handler sets the status to error with the helper
  text "Minimum: 128" and makes no call.
\<close>

theorem handleMaxTokensChange_negative:
  assumes "Z \<noteq> []" and "list_all isDigit Z" and "0 < mathInt Z"
  shows "parseInt10 (0x2D # Z) = Some (- mathInt Z)
         \<and> handleMaxTokensChange (0x2D # Z) s =
             (s\<lparr>maxTokensValue := 0x2D # Z, maxTokensValidated := Error,
                maxTokensHelperText := js ''Minimum: 128''\<rparr>, [])"
  using assms parseInt10_minus_digit_run [OF assms(1,2)]
  by (simp add: handleMaxTokensChange_def Let_def)

theorem handleMaxTokensChange_negative_witness:
  "parseInt10 (js ''-5'') = Some (- 5)
   \<and> handleMaxTokensChange (js ''-5'') (initialState None) =
       (\<lparr>maxTokensValue = js ''-5'', maxTokensValidated = Error,
         maxTokensHelperText = js ''Minimum: 128''\<rparr>, [])"
proof -
  have h: "js ''5'' \<noteq> []" "list_all isDigit (js ''5'')" "0 < mathInt (js ''5'')"
    by (simp_all add: parse_eval)
  have v: "mathInt (js ''5'') = 5" "js ''-5'' = 0x2D # js ''5''"
    by (simp_all add: parse_eval)
  show ?thesis
    using handleMaxTokensChange_negative [OF h, of "initialState None"]
    by (simp add: v initialState_def)
qed

section \<open>The claims about the initial state and the effect\<close>

text \<open>
  Claim C6, as the spec states it, fails. The status and the helper text are state cells
  of their own, written by the handler only. After the handler has rejected "64", the
  effect for the prop value 8192 leaves the field with the text "8192", the status error
  and the helper text "Minimum: 128"; the handler called with "8192" leaves the same text
  with the status success and no helper text. So two states the component reaches hold
  the same text with different status and helper text.
\<close>

theorem stale_status_counterexample:
  "maxTokensValue (fst (syncMaxTokens (Some 8192)
       (fst (handleMaxTokensChange (js ''64'') (initialState None))))) = js ''8192''
   \<and> maxTokensValidated (fst (syncMaxTokens (Some 8192)
       (fst (handleMaxTokensChange (js ''64'') (initialState None))))) = Error
   \<and> maxTokensHelperText (fst (syncMaxTokens (Some 8192)
       (fst (handleMaxTokensChange (js ''64'') (initialState None))))) = js ''Minimum: 128''
   \<and> maxTokensValue (fst (handleMaxTokensChange (js ''8192'') (initialState None))) = js ''8192''
   \<and> maxTokensValidated (fst (handleMaxTokensChange (js ''8192'') (initialState None))) = Success
   \<and> maxTokensHelperText (fst (handleMaxTokensChange (js ''8192'') (initialState None))) = []"
proof -
  have lo: "parseInt10 (js ''64'') = Some 64" by (simp add: parse_eval)
  have ok: "parseInt10 (js ''8192'') = Some 8192" by (simp add: parse_eval)
  have ne: "js ''64'' \<noteq> []" "js ''8192'' \<noteq> []" by (simp_all add: js_def)
  have pr: "maxTokensText (Some 8192) = js ''8192''" by (simp add: print_eval)
  show ?thesis
    by (simp add: handleMaxTokensChange_def Let_def syncMaxTokens_def lo ok ne pr)
qed

text \<open>
  Claim C6, amended. After each call of the handler the whole state, so the status and
  the helper text, depends on the text just stored and on nothing that was held before;
  the effect replaces the text only and keeps the status and the helper text it finds.
\<close>

theorem status_set_by_handler_kept_by_sync:
  "fst (handleMaxTokensChange v s) = fst (handleMaxTokensChange v s')
   \<and> maxTokensValue (fst (handleMaxTokensChange v s)) = v
   \<and> maxTokensValidated (fst (syncMaxTokens maxTokens s)) = maxTokensValidated s
   \<and> maxTokensHelperText (fst (syncMaxTokens maxTokens s)) = maxTokensHelperText s"
  by (simp add: handleMaxTokensChange_def Let_def syncMaxTokens_def split: option.split)

text \<open>
  Claim C7, as the spec states it, fails in its last part: the effect does not recompute
  the status. On a component constructed with no value, the effect for the prop value
  8192 sets the text to "8192" and leaves the status default, not success.
\<close>

theorem sync_status_not_recomputed_counterexample:
  "maxTokensValue (fst (syncMaxTokens (Some 8192) (initialState None))) = js ''8192''
   \<and> maxTokensValidated (fst (syncMaxTokens (Some 8192) (initialState None))) = Default
   \<and> maxTokensValidated (fst (syncMaxTokens (Some 8192) (initialState None))) \<noteq> Success"
  by (simp add: syncMaxTokens_def initialState_def print_eval)

text \<open>
  Claim C7, amended. The effect overwrites the text with the empty string when the prop is
  undefined and with the decimal string of the prop when the prop is an integer of
  magnitude below \<open>2 ^ 53\<close>; whatever the prop, it makes no call of
  \<open>onMaxTokensChange\<close> and leaves the status and the helper text as they were. For the
  prop value 8192 the text becomes "8192".
\<close>

theorem syncMaxTokens_overwrites_text_only:
  "maxTokensValue (fst (syncMaxTokens None s)) = []
   \<and> (isSafeInteger n \<longrightarrow> maxTokensValue (fst (syncMaxTokens (Some n) s)) = Number_toString n)
   \<and> snd (syncMaxTokens maxTokens s) = []
   \<and> maxTokensValidated (fst (syncMaxTokens maxTokens s)) = maxTokensValidated s
   \<and> maxTokensHelperText (fst (syncMaxTokens maxTokens s)) = maxTokensHelperText s
   \<and> maxTokensValue (fst (syncMaxTokens (Some 8192) s)) = js ''8192''"
proof -
  have "maxTokensText (Some 8192) = js ''8192''" by (simp add: print_eval)
  then show ?thesis
    by (simp add: syncMaxTokens_def maxTokensText_def)
qed

theorem syncMaxTokens_overwrites_text_only_witness:
  "isSafeInteger 8192
   \<and> maxTokensValue (fst (syncMaxTokens (Some 8192)
        (fst (handleMaxTokensChange (js ''64'') (initialState None))))) = Number_toString 8192
   \<and> Number_toString 8192 = js ''8192''
   \<and> snd (syncMaxTokens (Some 8192)
        (fst (handleMaxTokensChange (js ''64'') (initialState None)))) = []
   \<and> maxTokensValidated (fst (syncMaxTokens (Some 8192)
        (fst (handleMaxTokensChange (js ''64'') (initialState None)))))
       = maxTokensValidated (fst (handleMaxTokensChange (js ''64'') (initialState None)))"
proof -
  have safe: "isSafeInteger 8192" by (simp add: isSafeInteger_def)
  have dec: "Number_toString 8192 = js ''8192''" by (simp add: print_eval)
  show ?thesis
    using safe dec
      syncMaxTokens_overwrites_text_only
        [of "fst (handleMaxTokensChange (js ''64'') (initialState None))" 8192 "Some 8192"]
    by simp
qed

text \<open>
  Claim C8, as the spec states it, fails in its last part: constructed with the value
  4096 the component shows the text "4096" with the status default, not success, before
  and after the effect of the first render.
\<close>

theorem initial_status_not_accepted_counterexample:
  "maxTokensValue (initialState (Some 4096)) = js ''4096''
   \<and> maxTokensValidated (initialState (Some 4096)) = Default
   \<and> maxTokensValidated (initialState (Some 4096)) \<noteq> Success
   \<and> maxTokensValidated (fst (mount (Some 4096))) \<noteq> Success"
  by (simp add: mount_def syncMaxTokens_def initialState_def print_eval)

text \<open>
  Claim C8, amended. The initial text is the empty string when the prop is undefined and
  the decimal string of the prop when the prop is an integer of magnitude below
  \<open>2 ^ 53\<close>; the initial status is default and the initial helper text is empty,
  whatever the prop; the effect of the first render changes nothing and makes no call.
  Constructed with 4096 the text is "4096". The effect keeps the status it finds at every
  later run too, and the handler sets success exactly on a non-empty text that parses
  into the range, so the status becomes success only through the handler.
\<close>

theorem initialState_always_default:
  "maxTokensValue (initialState None) = []
   \<and> (isSafeInteger n \<longrightarrow> maxTokensValue (initialState (Some n)) = Number_toString n)
   \<and> maxTokensValidated (initialState maxTokens) = Default
   \<and> maxTokensHelperText (initialState maxTokens) = []
   \<and> mount maxTokens = (initialState maxTokens, [])
   \<and> maxTokensValue (initialState (Some 4096)) = js ''4096''
   \<and> maxTokensValidated (fst (syncMaxTokens maxTokens' s)) = maxTokensValidated s
   \<and> (maxTokensValidated (fst (handleMaxTokensChange v s)) = Success) =
       (v \<noteq> [] \<and> (\<exists>i. parseInt10 v = Some i \<and> 128 \<le> i \<and> i \<le> 128000))"
proof -
  have dec: "maxTokensText (Some 4096) = js ''4096''" by (simp add: print_eval)
  have init: "maxTokensValue (initialState None) = []"
    "maxTokensValue (initialState (Some n)) = Number_toString n"
    "maxTokensValidated (initialState maxTokens) = Default"
    "maxTokensHelperText (initialState maxTokens) = []"
    "maxTokensValue (initialState (Some 4096)) = js ''4096''"
    using dec by (simp_all add: initialState_def maxTokensText_def)
  have mnt: "mount maxTokens = (initialState maxTokens, [])"
    by (simp add: mount_def syncMaxTokens_def initialState_def)
  have keep: "maxTokensValidated (fst (syncMaxTokens maxTokens' s)) = maxTokensValidated s"
    by (simp add: syncMaxTokens_def)
  have only: "(maxTokensValidated (fst (handleMaxTokensChange v s)) = Success) =
       (v \<noteq> [] \<and> (\<exists>i. parseInt10 v = Some i \<and> 128 \<le> i \<and> i \<le> 128000))"
    by (auto simp add: handleMaxTokensChange_def Let_def split: option.split)
  show ?thesis using init mnt keep only by simp
qed

theorem initialState_always_default_witness:
  "isSafeInteger 4096
   \<and> maxTokensValue (initialState (Some 4096)) = Number_toString 4096
   \<and> Number_toString 4096 = js ''4096''
   \<and> maxTokensValidated (initialState (Some 4096)) = Default
   \<and> maxTokensHelperText (initialState (Some 4096)) = []
   \<and> mount (Some 4096) = (initialState (Some 4096), [])
   \<and> maxTokensValidated (fst (syncMaxTokens (Some 8192) (initialState (Some 4096)))) = Default"
proof -
  have safe: "isSafeInteger 4096" by (simp add: isSafeInteger_def)
  have dec: "Number_toString 4096 = js ''4096''" by (simp add: print_eval)
  show ?thesis
    using safe dec
      initialState_always_default
        [of 4096 "Some 4096" "Some 8192" "initialState (Some 4096)" "js ''4096''"]
    by simp
qed

end
